theory Spec2Isabelle
  imports Main
begin

section \<open>The peer negotiation adapter of speek.video\<close>

text \<open>
  The development embeds \<^verbatim>\<open>libs/core/adapter/src/lib/peer.adapter.ts\<close>: the class
  \<^verbatim>\<open>PeerAdapter\<close>, a thin layer over the browser's \<^verbatim>\<open>RTCPeerConnection\<close>.
  The connection object belongs to the browser, not to the repository, so the commands of
  the adapter take the transport engine as a parameter: a record of the operations the
  adapter calls, over an arbitrary connection state \<open>'c\<close>. Mutation of the connection is
  explicit state passing. A promise is modelled by the way it settles, a synchronous call
  by the way it completes, so that a rejected promise and a thrown exception stay apart.
  The steps of one command run without another command or event in between.
\<close>

subsection \<open>Values exchanged with the engine\<close>

datatype sdp_type = Offer | Answer | Pranswer | Rollback

record session_description =
  sdp_type :: sdp_type
  sdp :: string

record ice_candidate =
  candidate :: string
  sdpMid :: "string option"
  sdpMLineIndex :: "nat option"
  usernameFragment :: "string option"

record offer_options =
  iceRestart :: bool
  offerToReceiveAudio :: bool
  offerToReceiveVideo :: bool

record data_channel_init =
  ordered :: bool
  negotiated :: bool

datatype signaling_state =
  Stable | HaveLocalOffer | HaveRemoteOffer | HaveLocalPranswer | HaveRemotePranswer | Closed

text \<open>How a promise settles, and how a synchronous call completes.\<close>

datatype ('e, 'a) settled = Resolved 'a | Rejected 'e

datatype ('e, 'a) completion = Returned 'a | Thrown 'e

text \<open>
  The operations of \<^verbatim>\<open>RTCPeerConnection\<close> (and the two constructors
  \<^verbatim>\<open>RTCSessionDescription\<close>, \<^verbatim>\<open>RTCIceCandidate\<close>) the adapter uses. An optional
  argument of the source is an \<open>option\<close>, \<open>None\<close> standing for \<^verbatim>\<open>undefined\<close>.
\<close>

record ('cfg, 'c, 'e, 'h) engine =
  eng_new :: "'cfg \<Rightarrow> ('e, 'c) completion"
  eng_createOffer :: "offer_options option \<Rightarrow> 'c \<Rightarrow> ('e, session_description) settled \<times> 'c"
  eng_createAnswer :: "'c \<Rightarrow> ('e, session_description) settled \<times> 'c"
  eng_setLocalDescription :: "session_description \<Rightarrow> 'c \<Rightarrow> ('e, unit) settled \<times> 'c"
  eng_setRemoteDescription ::
    "session_description option \<Rightarrow> 'c \<Rightarrow> ('e, unit) settled \<times> 'c"
  eng_addIceCandidate :: "ice_candidate \<Rightarrow> 'c \<Rightarrow> ('e, unit) settled \<times> 'c"
  eng_createDataChannel ::
    "string \<Rightarrow> data_channel_init option \<Rightarrow> 'c \<Rightarrow> ('e, 'h) completion \<times> 'c"
  eng_close :: "'c \<Rightarrow> 'c"
  eng_localDescription :: "'c \<Rightarrow> session_description option"
  eng_signalingState :: "'c \<Rightarrow> signaling_state"
  eng_newSessionDescription ::
    "session_description option \<Rightarrow> ('e, session_description) completion"
  eng_newIceCandidate :: "ice_candidate \<Rightarrow> ('e, ice_candidate) completion"

subsection \<open>The adapter's own state\<close>

text \<open>
  A media stream is an object. One reported by the engine is named by the engine's
  identifier; one made by the adapter with \<^verbatim>\<open>new MediaStream()\<close> is an address in the
  adapter's store \<open>streams\<close>, which holds the tracks of each such object. An emission carries
  the reference, so a later \<^verbatim>\<open>addTrack\<close> would be seen through it.
\<close>

type_synonym track = nat
type_synonym subscriber = nat

datatype media_stream = Reported nat | Synthetic nat

text \<open>
  Each subscription to one of the three observables runs that observable's subscribe
  function, which registers one listener on the connection.
\<close>

datatype listener =
  ChangeListener subscriber | CandidateListener subscriber | TrackListener subscriber

record 'c adapter =
  connection :: 'c
  listeners :: "listener list"
  inboundStream :: "nat option"
  streams :: "track list list"

datatype event =
  SignalingStateChangeEvent
| IceCandidateEvent "ice_candidate option"
| TrackEvent track "media_stream list option"

text \<open>
  What a subscriber is handed: the target of a \<^verbatim>\<open>signalingstatechange\<close> event is the
  connection object the listener is registered on; the other constructors are the values
  a feed could carry.
\<close>

datatype emitted =
  ConnectionTarget
| SignalingStateValue signaling_state
| CandidateValue "ice_candidate option"
| StreamValue media_stream

datatype notification = Next subscriber emitted | Err subscriber | Complete subscriber

subsection \<open>Construction and subscription\<close>

definition PeerAdapter ::
  "('cfg, 'c, 'e, 'h) engine \<Rightarrow> 'cfg \<Rightarrow> ('e, 'c adapter) completion" where
  "PeerAdapter eng config =
     (case eng_new eng config of
        Thrown err \<Rightarrow> Thrown err
      | Returned c \<Rightarrow>
          Returned \<lparr>connection = c, listeners = [], inboundStream = None, streams = []\<rparr>)"

definition subscribe_onChange :: "subscriber \<Rightarrow> 'c adapter \<Rightarrow> 'c adapter" where
  "subscribe_onChange s a = a\<lparr>listeners := listeners a @ [ChangeListener s]\<rparr>"

definition subscribe_onCandidate :: "subscriber \<Rightarrow> 'c adapter \<Rightarrow> 'c adapter" where
  "subscribe_onCandidate s a = a\<lparr>listeners := listeners a @ [CandidateListener s]\<rparr>"

definition subscribe_onTrack :: "subscriber \<Rightarrow> 'c adapter \<Rightarrow> 'c adapter" where
  "subscribe_onTrack s a = a\<lparr>listeners := listeners a @ [TrackListener s]\<rparr>"

subsection \<open>Event listeners\<close>

text \<open>
  The body of the \<^verbatim>\<open>track\<close> listener. The parameter default \<^verbatim>\<open>streams = []\<close> replaces
  an undefined field; \<^verbatim>\<open>inboundStream\<close> is one variable of the constructor, shared by all
  subscriptions.
\<close>

definition onTrack_listener ::
  "subscriber \<Rightarrow> track \<Rightarrow> media_stream list option \<Rightarrow> 'c adapter
     \<Rightarrow> notification list \<times> 'c adapter" where
  "onTrack_listener s t streams_field a =
     (let ss = (case streams_field of None \<Rightarrow> [] | Some l \<Rightarrow> l) in
      case ss of
        s0 # _ \<Rightarrow> ([Next s (StreamValue s0)], a)
      | [] \<Rightarrow>
          (case inboundStream a of
             None \<Rightarrow>
               ([Next s (StreamValue (Synthetic (length (streams a))))],
                a\<lparr>inboundStream := Some (length (streams a)),
                  streams := streams a @ [[t]]\<rparr>)
           | Some _ \<Rightarrow> ([], a)))"

fun handle :: "listener \<Rightarrow> event \<Rightarrow> 'c adapter \<Rightarrow> notification list \<times> 'c adapter" where
  "handle (ChangeListener s) SignalingStateChangeEvent a = ([Next s ConnectionTarget], a)"
| "handle (CandidateListener s) (IceCandidateEvent c) a = ([Next s (CandidateValue c)], a)"
| "handle (TrackListener s) (TrackEvent t ss) a = onTrack_listener s t ss a"
| "handle _ _ a = ([], a)"

text \<open>An event runs the listeners registered for its type, in registration order.\<close>

fun deliver :: "listener list \<Rightarrow> event \<Rightarrow> 'c adapter \<Rightarrow> notification list \<times> 'c adapter" where
  "deliver [] ev a = ([], a)"
| "deliver (l # ls) ev a =
     (case handle l ev a of
        (ns, a1) \<Rightarrow> (case deliver ls ev a1 of (ms, a2) \<Rightarrow> (ns @ ms, a2)))"

definition dispatchEvent :: "event \<Rightarrow> 'c adapter \<Rightarrow> notification list \<times> 'c adapter" where
  "dispatchEvent ev a = deliver (listeners a) ev a"

fun dispatchAll :: "event list \<Rightarrow> 'c adapter \<Rightarrow> notification list \<times> 'c adapter" where
  "dispatchAll [] a = ([], a)"
| "dispatchAll (ev # evs) a =
     (case dispatchEvent ev a of
        (ns, a1) \<Rightarrow> (case dispatchAll evs a1 of (ms, a2) \<Rightarrow> (ns @ ms, a2)))"

text \<open>The tracks of the stream object a reference denotes, as far as the adapter holds it.\<close>

definition tracks_of :: "'c adapter \<Rightarrow> media_stream \<Rightarrow> track list option" where
  "tracks_of a m =
     (case m of
        Reported _ \<Rightarrow> None
      | Synthetic n \<Rightarrow> (if n < length (streams a) then Some (streams a ! n) else None))"

subsection \<open>Commands\<close>

definition createOffer ::
  "('cfg, 'c, 'e, 'h) engine \<Rightarrow> offer_options option \<Rightarrow> 'c adapter
     \<Rightarrow> ('e, session_description option) settled \<times> 'c adapter" where
  "createOffer eng options a =
     (case eng_createOffer eng options (connection a) of
        (Rejected err, c1) \<Rightarrow> (Rejected err, a\<lparr>connection := c1\<rparr>)
      | (Resolved offer, c1) \<Rightarrow>
          (case eng_setLocalDescription eng offer c1 of
             (Rejected err, c2) \<Rightarrow> (Rejected err, a\<lparr>connection := c2\<rparr>)
           | (Resolved _, c2) \<Rightarrow>
               (Resolved (eng_localDescription eng c2), a\<lparr>connection := c2\<rparr>)))"

definition createAnswer ::
  "('cfg, 'c, 'e, 'h) engine \<Rightarrow> session_description option \<Rightarrow> 'c adapter
     \<Rightarrow> ('e, session_description option) settled \<times> 'c adapter" where
  "createAnswer eng options a =
     (case eng_setRemoteDescription eng options (connection a) of
        (Rejected err, c1) \<Rightarrow> (Rejected err, a\<lparr>connection := c1\<rparr>)
      | (Resolved _, c1) \<Rightarrow>
          (case eng_createAnswer eng c1 of
             (Rejected err, c2) \<Rightarrow> (Rejected err, a\<lparr>connection := c2\<rparr>)
           | (Resolved answer, c2) \<Rightarrow>
               (case eng_setLocalDescription eng answer c2 of
                  (Rejected err, c3) \<Rightarrow> (Rejected err, a\<lparr>connection := c3\<rparr>)
                | (Resolved _, c3) \<Rightarrow>
                    (Resolved (eng_localDescription eng c3), a\<lparr>connection := c3\<rparr>))))"

definition setRemote ::
  "('cfg, 'c, 'e, 'h) engine \<Rightarrow> session_description option \<Rightarrow> 'c adapter
     \<Rightarrow> ('e, ('e, unit) settled) completion \<times> 'c adapter" where
  "setRemote eng description a =
     (case eng_newSessionDescription eng description of
        Thrown err \<Rightarrow> (Thrown err, a)
      | Returned d \<Rightarrow>
          (case eng_setRemoteDescription eng (Some d) (connection a) of
             (p, c1) \<Rightarrow> (Returned p, a\<lparr>connection := c1\<rparr>)))"

definition addCandidate ::
  "('cfg, 'c, 'e, 'h) engine \<Rightarrow> ice_candidate \<Rightarrow> 'c adapter
     \<Rightarrow> ('e, ('e, unit) settled) completion \<times> 'c adapter" where
  "addCandidate eng cand a =
     (case eng_newIceCandidate eng cand of
        Thrown err \<Rightarrow> (Thrown err, a)
      | Returned ic \<Rightarrow>
          (case eng_addIceCandidate eng ic (connection a) of
             (p, c1) \<Rightarrow> (Returned p, a\<lparr>connection := c1\<rparr>)))"

definition createDataChannel ::
  "('cfg, 'c, 'e, 'h) engine \<Rightarrow> string \<Rightarrow> data_channel_init option \<Rightarrow> 'c adapter
     \<Rightarrow> ('e, 'h) completion \<times> 'c adapter" where
  "createDataChannel eng label options a =
     (case eng_createDataChannel eng label options (connection a) of
        (r, c1) \<Rightarrow> (r, a\<lparr>connection := c1\<rparr>))"

definition close :: "('cfg, 'c, 'e, 'h) engine \<Rightarrow> 'c adapter \<Rightarrow> 'c adapter" where
  "close eng a = a\<lparr>connection := eng_close eng (connection a)\<rparr>"

subsection \<open>A transport engine to run the adapter on\<close>

text \<open>
  Modelled from the spec: the transport engine is the browser's \<^verbatim>\<open>RTCPeerConnection\<close>,
  which is not part of the repository. The instance below follows the state machine of
  section 4.1 of the specification (stable, have-local-offer, have-remote-offer, closed; no
  command is valid from closed), completed by the signalling-state table of WebRTC for
  re-applied offers, provisional answers and rollback, and the boundary of section 6. A
  description applied locally is stored with the engine's own ICE username fragment added;
  a malformed (undefined) remote description is refused. It serves to run the adapter on
  concrete inputs; the general theorems hold for every engine.
\<close>

datatype dom_error = InvalidStateError | TypeError | OperationError

record peer_connection =
  signalingState :: signaling_state
  localDescription :: "session_description option"
  remoteDescription :: "session_description option"
  remoteCandidates :: "ice_candidate list"
  dataChannels :: "string list"

definition sample_local_next :: "sdp_type \<Rightarrow> signaling_state \<Rightarrow> signaling_state option" where
  "sample_local_next ty st =
     (case ty of
        Offer \<Rightarrow> (if st = Stable \<or> st = HaveLocalOffer then Some HaveLocalOffer else None)
      | Answer \<Rightarrow> (if st = HaveRemoteOffer \<or> st = HaveLocalPranswer then Some Stable else None)
      | Pranswer \<Rightarrow>
          (if st = HaveRemoteOffer \<or> st = HaveLocalPranswer then Some HaveLocalPranswer
           else None)
      | Rollback \<Rightarrow> (if st = HaveLocalOffer then Some Stable else None))"

definition sample_remote_next :: "sdp_type \<Rightarrow> signaling_state \<Rightarrow> signaling_state option" where
  "sample_remote_next ty st =
     (case ty of
        Offer \<Rightarrow> (if st = Stable \<or> st = HaveRemoteOffer then Some HaveRemoteOffer else None)
      | Answer \<Rightarrow> (if st = HaveLocalOffer \<or> st = HaveRemotePranswer then Some Stable else None)
      | Pranswer \<Rightarrow>
          (if st = HaveLocalOffer \<or> st = HaveRemotePranswer then Some HaveRemotePranswer
           else None)
      | Rollback \<Rightarrow> (if st = HaveRemoteOffer then Some Stable else None))"

definition sample_new :: "string list \<Rightarrow> (dom_error, peer_connection) completion" where
  "sample_new iceServers =
     Returned \<lparr>signalingState = Stable, localDescription = None, remoteDescription = None,
       remoteCandidates = [], dataChannels = []\<rparr>"

definition sample_createOffer ::
  "offer_options option \<Rightarrow> peer_connection
     \<Rightarrow> (dom_error, session_description) settled \<times> peer_connection" where
  "sample_createOffer options c =
     (if signalingState c = Stable \<or> signalingState c = HaveLocalOffer
      then (Resolved \<lparr>sdp_type = Offer, sdp = ''v=0''\<rparr>, c)
      else (Rejected InvalidStateError, c))"

definition sample_createAnswer ::
  "peer_connection \<Rightarrow> (dom_error, session_description) settled \<times> peer_connection" where
  "sample_createAnswer c =
     (if signalingState c = HaveRemoteOffer \<or> signalingState c = HaveLocalPranswer
      then (Resolved \<lparr>sdp_type = Answer, sdp = ''v=0''\<rparr>, c)
      else (Rejected InvalidStateError, c))"

definition sample_setLocalDescription ::
  "session_description \<Rightarrow> peer_connection \<Rightarrow> (dom_error, unit) settled \<times> peer_connection" where
  "sample_setLocalDescription d c =
     (case sample_local_next (sdp_type d) (signalingState c) of
        None \<Rightarrow> (Rejected InvalidStateError, c)
      | Some st \<Rightarrow>
          (Resolved (),
           c\<lparr>signalingState := st,
             localDescription :=
               (if sdp_type d = Rollback then None
                else Some (d\<lparr>sdp := sdp d @ '' a=ice-ufrag:EsAw''\<rparr>))\<rparr>))"

definition sample_setRemoteDescription ::
  "session_description option \<Rightarrow> peer_connection
     \<Rightarrow> (dom_error, unit) settled \<times> peer_connection" where
  "sample_setRemoteDescription description c =
     (case description of
        None \<Rightarrow> (Rejected TypeError, c)
      | Some d \<Rightarrow>
          (case sample_remote_next (sdp_type d) (signalingState c) of
             None \<Rightarrow> (Rejected InvalidStateError, c)
           | Some st \<Rightarrow>
               (Resolved (),
                c\<lparr>signalingState := st,
                  remoteDescription := (if sdp_type d = Rollback then None else Some d)\<rparr>)))"

definition sample_addIceCandidate ::
  "ice_candidate \<Rightarrow> peer_connection \<Rightarrow> (dom_error, unit) settled \<times> peer_connection" where
  "sample_addIceCandidate cand c =
     (if signalingState c = Closed \<or> remoteDescription c = None
      then (Rejected InvalidStateError, c)
      else (Resolved (), c\<lparr>remoteCandidates := remoteCandidates c @ [cand]\<rparr>))"

definition sample_createDataChannel ::
  "string \<Rightarrow> data_channel_init option \<Rightarrow> peer_connection
     \<Rightarrow> (dom_error, nat) completion \<times> peer_connection" where
  "sample_createDataChannel label options c =
     (if signalingState c = Closed then (Thrown InvalidStateError, c)
      else if 65535 < length label then (Thrown TypeError, c)
      else (Returned (length (dataChannels c)), c\<lparr>dataChannels := dataChannels c @ [label]\<rparr>))"

definition sample_close :: "peer_connection \<Rightarrow> peer_connection" where
  "sample_close c = c\<lparr>signalingState := Closed\<rparr>"

definition sample_newSessionDescription ::
  "session_description option \<Rightarrow> (dom_error, session_description) completion" where
  "sample_newSessionDescription description =
     (case description of None \<Rightarrow> Thrown TypeError | Some d \<Rightarrow> Returned d)"

definition sample_newIceCandidate :: "ice_candidate \<Rightarrow> (dom_error, ice_candidate) completion" where
  "sample_newIceCandidate cand =
     (if sdpMid cand = None \<and> sdpMLineIndex cand = None then Thrown TypeError
      else Returned cand)"

definition sample_engine :: "(string list, peer_connection, dom_error, nat) engine" where
  "sample_engine =
     \<lparr>eng_new = sample_new,
      eng_createOffer = sample_createOffer,
      eng_createAnswer = sample_createAnswer,
      eng_setLocalDescription = sample_setLocalDescription,
      eng_setRemoteDescription = sample_setRemoteDescription,
      eng_addIceCandidate = sample_addIceCandidate,
      eng_createDataChannel = sample_createDataChannel,
      eng_close = sample_close,
      eng_localDescription = localDescription,
      eng_signalingState = signalingState,
      eng_newSessionDescription = sample_newSessionDescription,
      eng_newIceCandidate = sample_newIceCandidate\<rparr>"

text \<open>The adapter \<^verbatim>\<open>new PeerAdapter({iceServers: []})\<close> constructs on this engine.\<close>

definition fresh_connection :: peer_connection where
  "fresh_connection =
     \<lparr>signalingState = Stable, localDescription = None, remoteDescription = None,
       remoteCandidates = [], dataChannels = []\<rparr>"

definition fresh_adapter :: "peer_connection adapter" where
  "fresh_adapter =
     \<lparr>connection = fresh_connection, listeners = [], inboundStream = None, streams = []\<rparr>"

definition sample_offer :: session_description where
  "sample_offer = \<lparr>sdp_type = Offer, sdp = ''v=0 o=remote''\<rparr>"

definition sample_candidate :: ice_candidate where
  "sample_candidate =
     \<lparr>candidate = ''candidate:1 1 udp 2122260223 192.0.2.1 54400 typ host'',
      sdpMid = Some ''0'', sdpMLineIndex = Some 0, usernameFragment = None\<rparr>"

subsection \<open>Vocabulary of the properties\<close>

text \<open>Whether a promise resolved, a call returned, a returned promise resolved.\<close>

fun resolved :: "('e, 'a) settled \<Rightarrow> bool" where
  "resolved (Resolved _) = True"
| "resolved (Rejected _) = False"

fun returned :: "('e, 'a) completion \<Rightarrow> bool" where
  "returned (Returned _) = True"
| "returned (Thrown _) = False"

fun fulfilled :: "('e, ('e, 'a) settled) completion \<Rightarrow> bool" where
  "fulfilled (Returned p) = resolved p"
| "fulfilled (Thrown _) = False"

text \<open>
  The command surface of the adapter as data, to speak of sequences of calls: \<open>call\<close>
  runs one command and tells whether it succeeded, \<open>calls\<close> gives the adapter after a
  sequence of them.
\<close>

datatype command =
  CreateOffer "offer_options option"
| CreateAnswer "session_description option"
| SetRemote "session_description option"
| AddCandidate ice_candidate
| CreateDataChannel string "data_channel_init option"
| Close

fun call :: "('cfg, 'c, 'e, 'h) engine \<Rightarrow> command \<Rightarrow> 'c adapter \<Rightarrow> bool \<times> 'c adapter" where
  "call eng (CreateOffer options) a =
     (case createOffer eng options a of (r, a') \<Rightarrow> (resolved r, a'))"
| "call eng (CreateAnswer options) a =
     (case createAnswer eng options a of (r, a') \<Rightarrow> (resolved r, a'))"
| "call eng (SetRemote description) a =
     (case setRemote eng description a of (r, a') \<Rightarrow> (fulfilled r, a'))"
| "call eng (AddCandidate cand) a =
     (case addCandidate eng cand a of (r, a') \<Rightarrow> (fulfilled r, a'))"
| "call eng (CreateDataChannel label options) a =
     (case createDataChannel eng label options a of (r, a') \<Rightarrow> (returned r, a'))"
| "call eng Close a = (True, close eng a)"

fun calls :: "('cfg, 'c, 'e, 'h) engine \<Rightarrow> command list \<Rightarrow> 'c adapter \<Rightarrow> 'c adapter" where
  "calls eng [] a = a"
| "calls eng (cmd # cmds) a = calls eng cmds (snd (call eng cmd a))"

definition is_closed :: "('cfg, 'c, 'e, 'h) engine \<Rightarrow> 'c adapter \<Rightarrow> bool" where
  "is_closed eng a \<longleftrightarrow> eng_signalingState eng (connection a) = Closed"

text \<open>
  The adapter has no closed flag of its own, so what happens after \<^verbatim>\<open>close()\<close> is the
  engine's doing. The contracts below say what the adapter relies on: a closed connection
  refuses the operations the commands start with and stays closed; tearing down twice is
  tearing down once; an engine in \<open>stable\<close> or \<open>have-remote-offer\<close> accepts a remote offer,
  answers it, and returns to \<open>stable\<close> when the answer is applied.
\<close>

definition refuses_when_closed :: "('cfg, 'c, 'e, 'h) engine \<Rightarrow> bool" where
  "refuses_when_closed eng \<longleftrightarrow>
     (\<forall>c. eng_signalingState eng (eng_close eng c) = Closed) \<and>
     (\<forall>c. eng_signalingState eng c = Closed \<longrightarrow>
        (\<forall>options. \<not> resolved (fst (eng_createOffer eng options c)) \<and>
           eng_signalingState eng (snd (eng_createOffer eng options c)) = Closed) \<and>
        (\<forall>d. \<not> resolved (fst (eng_setRemoteDescription eng d c)) \<and>
           eng_signalingState eng (snd (eng_setRemoteDescription eng d c)) = Closed) \<and>
        (\<forall>cand. \<not> resolved (fst (eng_addIceCandidate eng cand c)) \<and>
           eng_signalingState eng (snd (eng_addIceCandidate eng cand c)) = Closed) \<and>
        (\<forall>label options. \<not> returned (fst (eng_createDataChannel eng label options c)) \<and>
           eng_signalingState eng (snd (eng_createDataChannel eng label options c)) = Closed))"

definition teardown_idempotent :: "('cfg, 'c, 'e, 'h) engine \<Rightarrow> bool" where
  "teardown_idempotent eng \<longleftrightarrow> (\<forall>c. eng_close eng (eng_close eng c) = eng_close eng c)"

definition answers_offers :: "('cfg, 'c, 'e, 'h) engine \<Rightarrow> bool" where
  "answers_offers eng \<longleftrightarrow>
     (\<forall>d. sdp_type d = Offer \<longrightarrow>
        (\<exists>d'. eng_newSessionDescription eng (Some d) = Returned d' \<and> sdp_type d' = Offer)) \<and>
     (\<forall>d c. sdp_type d = Offer \<and>
          (eng_signalingState eng c = Stable \<or> eng_signalingState eng c = HaveRemoteOffer) \<longrightarrow>
        (\<exists>c'. eng_setRemoteDescription eng (Some d) c = (Resolved (), c') \<and>
           eng_signalingState eng c' = HaveRemoteOffer)) \<and>
     (\<forall>c. eng_signalingState eng c = HaveRemoteOffer \<longrightarrow>
        (\<exists>answer c'. eng_createAnswer eng c = (Resolved answer, c') \<and>
           sdp_type answer = Answer \<and> eng_signalingState eng c' = HaveRemoteOffer)) \<and>
     (\<forall>answer c. sdp_type answer = Answer \<and> eng_signalingState eng c = HaveRemoteOffer \<longrightarrow>
        (\<exists>c' l. eng_setLocalDescription eng answer c = (Resolved (), c') \<and>
           eng_signalingState eng c' = Stable \<and>
           eng_localDescription eng c' = Some l \<and> sdp_type l = Answer))"

text \<open>The subscribers of the state-change and of the candidate feed, in subscription order.\<close>

fun change_subscribers :: "listener list \<Rightarrow> subscriber list" where
  "change_subscribers [] = []"
| "change_subscribers (ChangeListener s # ls) = s # change_subscribers ls"
| "change_subscribers (_ # ls) = change_subscribers ls"

fun candidate_subscribers :: "listener list \<Rightarrow> subscriber list" where
  "candidate_subscribers [] = []"
| "candidate_subscribers (CandidateListener s # ls) = s # candidate_subscribers ls"
| "candidate_subscribers (_ # ls) = candidate_subscribers ls"

fun is_next :: "notification \<Rightarrow> bool" where
  "is_next (Next _ _) = True"
| "is_next _ = False"

text \<open>The sample connection after a remote offer, and after the answer to it.\<close>

definition offered_connection :: peer_connection where
  "offered_connection =
     fresh_connection\<lparr>signalingState := HaveRemoteOffer, remoteDescription := Some sample_offer\<rparr>"

definition answered_connection :: peer_connection where
  "answered_connection =
     offered_connection\<lparr>signalingState := Stable,
       localDescription := Some \<lparr>sdp_type = Answer, sdp = ''v=0 a=ice-ufrag:EsAw''\<rparr>\<rparr>"

section \<open>Properties\<close>

subsection \<open>Facts about the sample engine\<close>

lemmas sample_defs =
  sample_engine_def sample_new_def sample_createOffer_def sample_createAnswer_def
  sample_setLocalDescription_def sample_setRemoteDescription_def sample_addIceCandidate_def
  sample_createDataChannel_def sample_close_def sample_newSessionDescription_def
  sample_newIceCandidate_def sample_local_next_def sample_remote_next_def
  fresh_adapter_def fresh_connection_def sample_offer_def sample_candidate_def

lemma PeerAdapter_sample: "PeerAdapter sample_engine [] = Returned fresh_adapter"
  by (simp add: PeerAdapter_def sample_defs)

lemma sample_engine_refuses_when_closed: "refuses_when_closed sample_engine"
  by (simp add: refuses_when_closed_def sample_engine_def sample_close_def
      sample_createOffer_def sample_setRemoteDescription_def sample_remote_next_def
      sample_addIceCandidate_def sample_createDataChannel_def
      split: option.splits sdp_type.splits)

lemma sample_engine_teardown_idempotent: "teardown_idempotent sample_engine"
  by (simp add: teardown_idempotent_def sample_engine_def sample_close_def)

lemma sample_engine_answers_offers: "answers_offers sample_engine"
  by (simp add: answers_offers_def sample_engine_def sample_newSessionDescription_def
      sample_setRemoteDescription_def sample_remote_next_def sample_createAnswer_def
      sample_setLocalDescription_def sample_local_next_def)

subsection \<open>Offer and answer\<close>

text \<open>
  Claim C1. \<^verbatim>\<open>createOffer(options)\<close> asks the engine for an offer, applies that offer as
  the local description, and resolves with the local description the connection holds
  after the application, which is the engine's to adjust, not with the offer the engine
  returned. For every engine: when the engine yields \<open>offer\<close> and accepts it, the command
  resolves with the local description read from the connection as the application left
  it, and that connection is the adapter's new one.
\<close>

theorem createOffer_resolves_with_local_description:
  assumes "eng_createOffer eng options (connection a) = (Resolved offer, c1)"
    and "eng_setLocalDescription eng offer c1 = (Resolved u, c2)"
  shows "createOffer eng options a =
           (Resolved (eng_localDescription eng c2), a\<lparr>connection := c2\<rparr>)"
  using assms by (simp add: createOffer_def)

text \<open>
  On the sample engine the resolved description carries the username fragment the raw
  offer \<open>v=0\<close> did not have.
\<close>

theorem createOffer_resolves_with_local_description_witness:
  "eng_createOffer sample_engine None (connection fresh_adapter) =
     (Resolved \<lparr>sdp_type = Offer, sdp = ''v=0''\<rparr>, fresh_connection) \<and>
   eng_setLocalDescription sample_engine \<lparr>sdp_type = Offer, sdp = ''v=0''\<rparr> fresh_connection =
     (Resolved (),
      fresh_connection\<lparr>signalingState := HaveLocalOffer,
        localDescription := Some \<lparr>sdp_type = Offer, sdp = ''v=0 a=ice-ufrag:EsAw''\<rparr>\<rparr>) \<and>
   createOffer sample_engine None fresh_adapter =
     (Resolved (Some \<lparr>sdp_type = Offer, sdp = ''v=0 a=ice-ufrag:EsAw''\<rparr>),
      fresh_adapter\<lparr>connection :=
        fresh_connection\<lparr>signalingState := HaveLocalOffer,
          localDescription := Some \<lparr>sdp_type = Offer, sdp = ''v=0 a=ice-ufrag:EsAw''\<rparr>\<rparr>\<rparr>)"
proof -
  have h1: "eng_createOffer sample_engine None (connection fresh_adapter) =
     (Resolved \<lparr>sdp_type = Offer, sdp = ''v=0''\<rparr>, fresh_connection)"
    by (simp add: sample_defs)
  have h2: "eng_setLocalDescription sample_engine \<lparr>sdp_type = Offer, sdp = ''v=0''\<rparr>
       fresh_connection =
     (Resolved (),
      fresh_connection\<lparr>signalingState := HaveLocalOffer,
        localDescription := Some \<lparr>sdp_type = Offer, sdp = ''v=0 a=ice-ufrag:EsAw''\<rparr>\<rparr>)"
    by (simp add: sample_defs)
  show ?thesis
    using h1 h2 createOffer_resolves_with_local_description [OF h1 h2]
    by (simp add: sample_engine_def)
qed

text \<open>
  Claim C2. \<^verbatim>\<open>createAnswer(remoteOffer)\<close> performs, in this order: the supplied
  description is applied as the remote description; on the connection that leaves, an
  answer is requested; on the connection that leaves, the answer is applied as the local
  description; the command resolves with the local description read from the connection
  after that application.
\<close>

theorem createAnswer_applies_remote_then_answers:
  assumes "eng_setRemoteDescription eng remoteOffer (connection a) = (Resolved u, c1)"
    and "eng_createAnswer eng c1 = (Resolved answer, c2)"
    and "eng_setLocalDescription eng answer c2 = (Resolved v, c3)"
  shows "createAnswer eng remoteOffer a =
           (Resolved (eng_localDescription eng c3), a\<lparr>connection := c3\<rparr>)"
  using assms by (simp add: createAnswer_def)

theorem createAnswer_applies_remote_then_answers_witness:
  "eng_setRemoteDescription sample_engine (Some sample_offer) (connection fresh_adapter) =
     (Resolved (), offered_connection) \<and>
   eng_createAnswer sample_engine offered_connection =
     (Resolved \<lparr>sdp_type = Answer, sdp = ''v=0''\<rparr>, offered_connection) \<and>
   eng_setLocalDescription sample_engine \<lparr>sdp_type = Answer, sdp = ''v=0''\<rparr> offered_connection =
     (Resolved (), answered_connection) \<and>
   createAnswer sample_engine (Some sample_offer) fresh_adapter =
     (Resolved (Some \<lparr>sdp_type = Answer, sdp = ''v=0 a=ice-ufrag:EsAw''\<rparr>),
      fresh_adapter\<lparr>connection := answered_connection\<rparr>)"
proof -
  have h1: "eng_setRemoteDescription sample_engine (Some sample_offer)
      (connection fresh_adapter) = (Resolved (), offered_connection)"
    by (simp add: sample_defs offered_connection_def)
  have h2: "eng_createAnswer sample_engine offered_connection =
     (Resolved \<lparr>sdp_type = Answer, sdp = ''v=0''\<rparr>, offered_connection)"
    by (simp add: sample_defs offered_connection_def)
  have h3: "eng_setLocalDescription sample_engine \<lparr>sdp_type = Answer, sdp = ''v=0''\<rparr>
      offered_connection = (Resolved (), answered_connection)"
    by (simp add: sample_defs offered_connection_def answered_connection_def)
  show ?thesis
    using h1 h2 h3 createAnswer_applies_remote_then_answers [OF h1 h2 h3]
    by (simp add: sample_engine_def answered_connection_def)
qed

text \<open>
  Claim C9, as stated: after \<^verbatim>\<open>setRemote(offer)\<close>, \<^verbatim>\<open>createAnswer()\<close> without an
  argument gives a local description of type answer and the state \<open>stable\<close>. The command
  hands its own argument to the engine as the remote description before it asks for an
  answer, so without an argument the engine is given an undefined description. On the
  sample engine the command is rejected, no local description exists and the state stays
  \<open>have-remote-offer\<close>.
\<close>

theorem setRemote_then_createAnswer_without_argument_counterexample:
  "fst (setRemote sample_engine (Some sample_offer) fresh_adapter) = Returned (Resolved ()) \<and>
   fst (createAnswer sample_engine None
          (snd (setRemote sample_engine (Some sample_offer) fresh_adapter)))
     = Rejected TypeError \<and>
   eng_localDescription sample_engine
     (connection (snd (createAnswer sample_engine None
          (snd (setRemote sample_engine (Some sample_offer) fresh_adapter))))) = None \<and>
   eng_signalingState sample_engine
     (connection (snd (createAnswer sample_engine None
          (snd (setRemote sample_engine (Some sample_offer) fresh_adapter)))))
     = HaveRemoteOffer"
  by (simp add: setRemote_def createAnswer_def sample_defs)

text \<open>
  Claim C9, amended: for \<^verbatim>\<open>setRemote(offer)\<close> followed by \<^verbatim>\<open>createAnswer(offer)\<close>, the
  offer supplied again, on an engine that follows the negotiation state machine and
  starts in \<open>stable\<close>, both commands succeed, the resulting local description has type
  answer and the signalling state is \<open>stable\<close> again.
\<close>

theorem setRemote_then_createAnswer_with_offer:
  assumes eng: "answers_offers eng"
    and off: "sdp_type offer = Offer"
    and st: "eng_signalingState eng (connection a) = Stable"
  shows "\<exists>d a'. fst (setRemote eng (Some offer) a) = Returned (Resolved ()) \<and>
           createAnswer eng (Some offer) (snd (setRemote eng (Some offer) a))
             = (Resolved (Some d), a') \<and>
           sdp_type d = Answer \<and> eng_signalingState eng (connection a') = Stable"
proof -
  from eng off obtain d' where
    n: "eng_newSessionDescription eng (Some offer) = Returned d'" and d': "sdp_type d' = Offer"
    unfolding answers_offers_def by blast
  from eng d' st obtain c1 where
    r1: "eng_setRemoteDescription eng (Some d') (connection a) = (Resolved (), c1)"
    and s1: "eng_signalingState eng c1 = HaveRemoteOffer"
    unfolding answers_offers_def by blast
  from eng off s1 obtain c2 where
    r2: "eng_setRemoteDescription eng (Some offer) c1 = (Resolved (), c2)"
    and s2: "eng_signalingState eng c2 = HaveRemoteOffer"
    unfolding answers_offers_def by blast
  from eng s2 obtain answer c3 where
    r3: "eng_createAnswer eng c2 = (Resolved answer, c3)"
    and t3: "sdp_type answer = Answer" and s3: "eng_signalingState eng c3 = HaveRemoteOffer"
    unfolding answers_offers_def by blast
  from eng t3 s3 obtain c4 l where
    r4: "eng_setLocalDescription eng answer c3 = (Resolved (), c4)"
    and s4: "eng_signalingState eng c4 = Stable"
    and l4: "eng_localDescription eng c4 = Some l" and t4: "sdp_type l = Answer"
    unfolding answers_offers_def by blast
  have a1: "setRemote eng (Some offer) a = (Returned (Resolved ()), a\<lparr>connection := c1\<rparr>)"
    using n r1 by (simp add: setRemote_def)
  have "createAnswer eng (Some offer) (a\<lparr>connection := c1\<rparr>)
          = (Resolved (Some l), a\<lparr>connection := c4\<rparr>)"
    using r2 r3 r4 l4 by (simp add: createAnswer_def)
  with a1 s4 t4 show ?thesis by simp
qed

theorem setRemote_then_createAnswer_with_offer_witness:
  "answers_offers sample_engine \<and> sdp_type sample_offer = Offer \<and>
   eng_signalingState sample_engine (connection fresh_adapter) = Stable \<and>
   (\<exists>d a'. fst (setRemote sample_engine (Some sample_offer) fresh_adapter)
              = Returned (Resolved ()) \<and>
           createAnswer sample_engine (Some sample_offer)
               (snd (setRemote sample_engine (Some sample_offer) fresh_adapter))
             = (Resolved (Some d), a') \<and>
           sdp_type d = Answer \<and> eng_signalingState sample_engine (connection a') = Stable)"
proof -
  have h2: "sdp_type sample_offer = Offer" by (simp add: sample_offer_def)
  have h3: "eng_signalingState sample_engine (connection fresh_adapter) = Stable"
    by (simp add: sample_defs)
  show ?thesis
    using sample_engine_answers_offers h2 h3
      setRemote_then_createAnswer_with_offer [OF sample_engine_answers_offers h2 h3]
    by blast
qed

subsection \<open>Data channels\<close>

text \<open>
  Claim C10. \<^verbatim>\<open>createDataChannel(label, options)\<close> completes exactly as the engine's
  call does: it returns the engine's handle, or throws what the engine throws, in the
  call itself and not through a promise. On the adapter nothing but the connection the
  engine worked on changes.
\<close>

theorem createDataChannel_returns_engine_handle:
  "fst (createDataChannel eng label options a) =
     fst (eng_createDataChannel eng label options (connection a)) \<and>
   connection (snd (createDataChannel eng label options a)) =
     snd (eng_createDataChannel eng label options (connection a)) \<and>
   listeners (snd (createDataChannel eng label options a)) = listeners a \<and>
   inboundStream (snd (createDataChannel eng label options a)) = inboundStream a \<and>
   streams (snd (createDataChannel eng label options a)) = streams a"
  by (simp add: createDataChannel_def split: prod.splits)

subsection \<open>Closing\<close>

lemma call_when_closed:
  assumes "refuses_when_closed eng" and "is_closed eng a"
  shows "is_closed eng (snd (call eng cmd a)) \<and> (fst (call eng cmd a) \<longrightarrow> cmd = Close)"
proof (cases cmd)
  case (CreateOffer options)
  obtain r c1 where e: "eng_createOffer eng options (connection a) = (r, c1)"
    by (cases "eng_createOffer eng options (connection a)")
  with assms have "\<not> resolved r" "eng_signalingState eng c1 = Closed"
    unfolding refuses_when_closed_def is_closed_def by (metis fst_conv, metis snd_conv)
  with e CreateOffer show ?thesis
    by (cases r) (simp_all add: createOffer_def is_closed_def)
next
  case (CreateAnswer d)
  obtain r c1 where e: "eng_setRemoteDescription eng d (connection a) = (r, c1)"
    by (cases "eng_setRemoteDescription eng d (connection a)")
  with assms have "\<not> resolved r" "eng_signalingState eng c1 = Closed"
    unfolding refuses_when_closed_def is_closed_def by (metis fst_conv, metis snd_conv)
  with e CreateAnswer show ?thesis
    by (cases r) (simp_all add: createAnswer_def is_closed_def)
next
  case (SetRemote d)
  show ?thesis
  proof (cases "eng_newSessionDescription eng d")
    case (Thrown err)
    with SetRemote assms(2) show ?thesis by (simp add: setRemote_def)
  next
    case (Returned d')
    obtain r c1 where e: "eng_setRemoteDescription eng (Some d') (connection a) = (r, c1)"
      by (cases "eng_setRemoteDescription eng (Some d') (connection a)")
    with assms have "\<not> resolved r" "eng_signalingState eng c1 = Closed"
      unfolding refuses_when_closed_def is_closed_def by (metis fst_conv, metis snd_conv)
    with e SetRemote Returned show ?thesis
      by (simp add: setRemote_def is_closed_def)
  qed
next
  case (AddCandidate cand)
  show ?thesis
  proof (cases "eng_newIceCandidate eng cand")
    case (Thrown err)
    with AddCandidate assms(2) show ?thesis by (simp add: addCandidate_def)
  next
    case (Returned ic)
    obtain r c1 where e: "eng_addIceCandidate eng ic (connection a) = (r, c1)"
      by (cases "eng_addIceCandidate eng ic (connection a)")
    with assms have "\<not> resolved r" "eng_signalingState eng c1 = Closed"
      unfolding refuses_when_closed_def is_closed_def by (metis fst_conv, metis snd_conv)
    with e AddCandidate Returned show ?thesis
      by (simp add: addCandidate_def is_closed_def)
  qed
next
  case (CreateDataChannel label options)
  obtain r c1 where e: "eng_createDataChannel eng label options (connection a) = (r, c1)"
    by (cases "eng_createDataChannel eng label options (connection a)")
  with assms have "\<not> returned r" "eng_signalingState eng c1 = Closed"
    unfolding refuses_when_closed_def is_closed_def by (metis fst_conv, metis snd_conv)
  with e CreateDataChannel show ?thesis
    by (simp add: createDataChannel_def is_closed_def)
next
  case Close
  with assms(1) show ?thesis
    by (simp add: close_def is_closed_def refuses_when_closed_def)
qed

lemma calls_when_closed:
  "refuses_when_closed eng \<Longrightarrow> is_closed eng a \<Longrightarrow> is_closed eng (calls eng cmds a)"
  by (induction cmds arbitrary: a) (simp_all add: call_when_closed)

lemma close_is_closed: "refuses_when_closed eng \<Longrightarrow> is_closed eng (close eng a)"
  by (simp add: refuses_when_closed_def is_closed_def close_def)

text \<open>
  Claim C4. After \<^verbatim>\<open>close()\<close> the closed state is terminal and no command succeeds:
  whatever calls follow the close, each later \<^verbatim>\<open>createOffer\<close>, \<^verbatim>\<open>createAnswer\<close>,
  \<^verbatim>\<open>setRemote\<close>, \<^verbatim>\<open>addCandidate\<close> or \<^verbatim>\<open>createDataChannel\<close> fails (rejects or throws),
  given an engine that refuses work on a closed connection. The adapter passes the
  engine's refusal on and swallows none.
\<close>

theorem no_command_succeeds_after_close:
  assumes "refuses_when_closed eng" and "cmd \<noteq> Close"
  shows "\<not> fst (call eng cmd (calls eng cmds (close eng a)))"
  using assms call_when_closed calls_when_closed close_is_closed by blast

text \<open>On the sample engine an offer succeeds before the close and nothing does after it.\<close>

theorem no_command_succeeds_after_close_witness:
  "refuses_when_closed sample_engine \<and>
   fst (call sample_engine (CreateOffer None) fresh_adapter) \<and>
   \<not> fst (call sample_engine (CreateOffer None)
       (calls sample_engine [] (close sample_engine fresh_adapter))) \<and>
   \<not> fst (call sample_engine (CreateAnswer (Some sample_offer))
       (calls sample_engine [CreateOffer None] (close sample_engine fresh_adapter))) \<and>
   \<not> fst (call sample_engine (SetRemote (Some sample_offer))
       (calls sample_engine [Close] (close sample_engine fresh_adapter))) \<and>
   \<not> fst (call sample_engine (AddCandidate sample_candidate)
       (calls sample_engine [SetRemote (Some sample_offer)] (close sample_engine fresh_adapter))) \<and>
   \<not> fst (call sample_engine (CreateDataChannel ''chat'' None)
       (calls sample_engine [] (close sample_engine fresh_adapter)))"
proof -
  note r = sample_engine_refuses_when_closed
  have "fst (call sample_engine (CreateOffer None) fresh_adapter)"
    by (simp add: createOffer_def sample_defs)
  then show ?thesis
    using r
      no_command_succeeds_after_close [OF r, of "CreateOffer None" "[]" fresh_adapter]
      no_command_succeeds_after_close [OF r, of "CreateAnswer (Some sample_offer)"
        "[CreateOffer None]" fresh_adapter]
      no_command_succeeds_after_close [OF r, of "SetRemote (Some sample_offer)"
        "[Close]" fresh_adapter]
      no_command_succeeds_after_close [OF r, of "AddCandidate sample_candidate"
        "[SetRemote (Some sample_offer)]" fresh_adapter]
      no_command_succeeds_after_close [OF r, of "CreateDataChannel ''chat'' None"
        "[]" fresh_adapter]
    by simp
qed

text \<open>
  Claim C6. \<^verbatim>\<open>close()\<close> is idempotent: it returns nothing and raises nothing, and with
  an engine whose teardown is idempotent any number of further calls leaves the adapter
  exactly as the first call left it.
\<close>

theorem close_is_idempotent:
  assumes "teardown_idempotent eng"
  shows "(close eng ^^ Suc n) a = close eng a"
proof (induction n)
  case 0
  show ?case by simp
next
  case (Suc n)
  have "(close eng ^^ Suc (Suc n)) a = close eng ((close eng ^^ Suc n) a)" by simp
  also have "\<dots> = close eng (close eng a)" using Suc by simp
  also have "\<dots> = close eng a"
    using assms by (simp add: close_def teardown_idempotent_def)
  finally show ?case .
qed

theorem close_is_idempotent_witness:
  "teardown_idempotent sample_engine \<and>
   close sample_engine (close sample_engine (close sample_engine fresh_adapter)) =
     close sample_engine fresh_adapter \<and>
   connection (close sample_engine fresh_adapter) = fresh_connection\<lparr>signalingState := Closed\<rparr>"
  using close_is_idempotent [OF sample_engine_teardown_idempotent, of 2 fresh_adapter]
    sample_engine_teardown_idempotent
  by (simp add: numeral_2_eq_2 close_def sample_engine_def sample_close_def fresh_adapter_def)

lemma handle_connection:
  "handle l ev (a\<lparr>connection := c\<rparr>) =
     (fst (handle l ev a), (snd (handle l ev a))\<lparr>connection := c\<rparr>)"
  by (cases "(l, ev, a)" rule: handle.cases)
    (simp_all add: onTrack_listener_def Let_def split: list.splits option.splits)

lemma deliver_connection:
  "deliver ls ev (a\<lparr>connection := c\<rparr>) =
     (fst (deliver ls ev a), (snd (deliver ls ev a))\<lparr>connection := c\<rparr>)"
proof (induction ls arbitrary: a)
  case Nil
  show ?case by simp
next
  case (Cons l ls)
  show ?case
    by (simp add: handle_connection Cons.IH split: prod.splits)
qed

text \<open>
  Claim C5, as stated: \<^verbatim>\<open>close()\<close> frees the pending synthetic inbound stream. The
  method only closes the connection; the constructor's variable \<^verbatim>\<open>inboundStream\<close> is
  out of its reach. After one ungrouped track and a close the adapter still holds the
  synthetic stream with its track.
\<close>

theorem close_retains_inboundStream_counterexample:
  "inboundStream
     (close sample_engine
        (snd (dispatchEvent (TrackEvent 7 (Some [])) (subscribe_onTrack 0 fresh_adapter))))
     = Some 0 \<and>
   tracks_of
     (close sample_engine
        (snd (dispatchEvent (TrackEvent 7 (Some [])) (subscribe_onTrack 0 fresh_adapter))))
     (Synthetic 0) = Some [7] \<and>
   inboundStream
     (close sample_engine
        (snd (dispatchEvent (TrackEvent 7 (Some [])) (subscribe_onTrack 0 fresh_adapter))))
     \<noteq> None"
  by (simp add: close_def dispatchEvent_def subscribe_onTrack_def onTrack_listener_def
      tracks_of_def fresh_adapter_def)

text \<open>
  Claim C5, amended: \<^verbatim>\<open>close()\<close> terminates the transport handle and changes nothing
  in the adapter's own state. The listeners of the three feeds stay registered, so an
  event is re-emitted after the close exactly as before it, and events stop only
  because a closed engine dispatches none; the pending synthetic inbound stream and its
  tracks are retained.
\<close>

theorem close_keeps_adapter_state:
  "connection (close eng a) = eng_close eng (connection a) \<and>
   listeners (close eng a) = listeners a \<and>
   inboundStream (close eng a) = inboundStream a \<and>
   streams (close eng a) = streams a \<and>
   fst (dispatchEvent ev (close eng a)) = fst (dispatchEvent ev a)"
  by (simp add: close_def dispatchEvent_def deliver_connection)

subsection \<open>The three feeds\<close>

lemma deliver_change:
  "deliver ls SignalingStateChangeEvent a =
     (map (\<lambda>s. Next s ConnectionTarget) (change_subscribers ls), a)"
proof (induction ls)
  case Nil
  show ?case by simp
next
  case (Cons l ls)
  then show ?case by (cases l) simp_all
qed

lemma deliver_candidate:
  "deliver ls (IceCandidateEvent c) a =
     (map (\<lambda>s. Next s (CandidateValue c)) (candidate_subscribers ls), a)"
proof (induction ls)
  case Nil
  show ?case by simp
next
  case (Cons l ls)
  then show ?case by (cases l) simp_all
qed

lemma handle_only_next: "list_all is_next (fst (handle l ev a))"
  by (cases "(l, ev, a)" rule: handle.cases)
    (simp_all add: onTrack_listener_def Let_def split: list.splits option.splits)

lemma deliver_only_next: "list_all is_next (fst (deliver ls ev a))"
proof (induction ls arbitrary: a)
  case Nil
  show ?case by simp
next
  case (Cons l ls)
  obtain ns a1 where h: "handle l ev a = (ns, a1)" by (cases "handle l ev a")
  obtain ms a2 where d: "deliver ls ev a1 = (ms, a2)" by (cases "deliver ls ev a1")
  from h have "list_all is_next ns" using handle_only_next [of l ev a] by simp
  moreover from d have "list_all is_next ms" using Cons.IH [of a1] by simp
  ultimately show ?case using h d by simp
qed

lemma dispatchAll_only_next: "list_all is_next (fst (dispatchAll evs a))"
proof (induction evs arbitrary: a)
  case Nil
  show ?case by simp
next
  case (Cons ev evs)
  obtain ns a1 where h: "dispatchEvent ev a = (ns, a1)" by (cases "dispatchEvent ev a")
  obtain ms a2 where d: "dispatchAll evs a1 = (ms, a2)" by (cases "dispatchAll evs a1")
  from h have "list_all is_next ns"
    using deliver_only_next [of "listeners a" ev a] by (simp add: dispatchEvent_def)
  moreover from d have "list_all is_next ms" using Cons.IH [of a1] by simp
  ultimately show ?case using h d by simp
qed

text \<open>
  Claim C7, as stated: on a change of the negotiation sub-state the state-change feed
  emits the signalling state value. The listener passes on the event's target, the
  connection object, as the observable's type \<^verbatim>\<open>Observable<RTCPeerConnection>\<close> says.
  After an offer moved the sample connection to \<open>have-local-offer\<close>, the subscriber is
  handed the connection and not that state value.
\<close>

theorem state_change_feed_counterexample:
  "eng_signalingState sample_engine
     (connection (snd (createOffer sample_engine None (subscribe_onChange 0 fresh_adapter))))
     = HaveLocalOffer \<and>
   fst (dispatchEvent SignalingStateChangeEvent
     (snd (createOffer sample_engine None (subscribe_onChange 0 fresh_adapter))))
     = [Next 0 ConnectionTarget] \<and>
   fst (dispatchEvent SignalingStateChangeEvent
     (snd (createOffer sample_engine None (subscribe_onChange 0 fresh_adapter))))
     \<noteq> [Next 0 (SignalingStateValue HaveLocalOffer)]"
  by (simp add: dispatchEvent_def createOffer_def subscribe_onChange_def sample_defs)

text \<open>
  Claim C7, amended: whenever the engine reports a change of its negotiation sub-state,
  the state-change feed emits the connection handle, once to each of its subscribers in
  subscription order, and leaves the adapter as it was; the current signalling state is
  what a subscriber reads from that handle.
\<close>

theorem state_change_feed_emits_connection:
  "dispatchEvent SignalingStateChangeEvent a =
     (map (\<lambda>s. Next s ConnectionTarget) (change_subscribers (listeners a)), a)"
  by (simp add: dispatchEvent_def deliver_change)

text \<open>
  Claim C8, as stated: the candidate feed ends with no terminal emission. The listener
  passes on the \<^verbatim>\<open>candidate\<close> field of every \<^verbatim>\<open>icecandidate\<close> event, and that field is
  null in the event by which the engine marks the end of gathering: after one gathered
  candidate the subscriber receives a second, null emission.
\<close>

theorem candidate_feed_null_emission_counterexample:
  "fst (dispatchAll [IceCandidateEvent (Some sample_candidate), IceCandidateEvent None]
     (subscribe_onCandidate 0 fresh_adapter))
   = [Next 0 (CandidateValue (Some sample_candidate)), Next 0 (CandidateValue None)]"
  by (simp add: dispatchEvent_def subscribe_onCandidate_def fresh_adapter_def)

text \<open>
  Claim C8, amended: the candidate feed re-emits the candidate field of every
  \<^verbatim>\<open>icecandidate\<close> event unchanged, once to each subscriber in subscription order, the
  null candidate of the end of gathering included; the adapter never signals an end:
  no sequence of events makes it send a completion or an error to a subscriber.
\<close>

theorem candidate_feed_reemits_every_event:
  "dispatchEvent (IceCandidateEvent c) a =
     (map (\<lambda>s. Next s (CandidateValue c)) (candidate_subscribers (listeners a)), a) \<and>
   Complete s \<notin> set (fst (dispatchAll evs a)) \<and>
   Err s \<notin> set (fst (dispatchAll evs a))"
proof -
  have "list_all is_next (fst (dispatchAll evs a))" by (rule dispatchAll_only_next)
  then have "Complete s \<notin> set (fst (dispatchAll evs a))"
    and "Err s \<notin> set (fst (dispatchAll evs a))"
    by (auto simp: list_all_iff)
  then show ?thesis by (simp add: dispatchEvent_def deliver_candidate)
qed

text \<open>
  Claim C3. Three tracks arrive without a stream grouping, one subscriber listens. The
  claim asks for one emission of a synthetic stream that holds all three tracks. The
  listener adds a track only inside the branch that creates the stream, so the one
  emitted stream holds the first track alone and the two later tracks are dropped.
\<close>

theorem onTrack_keeps_only_first_ungrouped_track:
  "fst (dispatchAll [TrackEvent 1 (Some []), TrackEvent 2 (Some []), TrackEvent 3 (Some [])]
          (subscribe_onTrack 0 fresh_adapter)) = [Next 0 (StreamValue (Synthetic 0))] \<and>
   tracks_of
     (snd (dispatchAll [TrackEvent 1 (Some []), TrackEvent 2 (Some []), TrackEvent 3 (Some [])]
        (subscribe_onTrack 0 fresh_adapter))) (Synthetic 0) = Some [1] \<and>
   tracks_of
     (snd (dispatchAll [TrackEvent 1 (Some []), TrackEvent 2 (Some []), TrackEvent 3 (Some [])]
        (subscribe_onTrack 0 fresh_adapter))) (Synthetic 0) \<noteq> Some [1, 2, 3]"
  by (simp add: dispatchEvent_def subscribe_onTrack_def onTrack_listener_def tracks_of_def
      fresh_adapter_def)

end
